theory Spec2Isabelle
  imports Main "HOL-Library.Char_ord" "HOL-Library.List_Lexorder"
begin

section \<open>JavaScript values and operators used by the handler\<close>

text \<open>
  The handler \<^verbatim>\<open>syncWithPlausible\<close> of \<^verbatim>\<open>src/index.js\<close> works on JSON data. The
  primitive values that can sit in a field of the state, of the secrets or of the
  upstream's \<^verbatim>\<open>meta\<close> object are modelled by \<open>jsval\<close>. Numbers are the integers
  (the range in which double arithmetic is exact) plus \<open>NaN\<close>; fractions, infinities
  and rounding are outside the model. Strings are lists of 8-bit characters, so
  the model covers ASCII text, where code-unit order and byte order agree.
  A missing property reads as \<open>JUndefined\<close>.
\<close>

datatype jsval = JUndefined | JNull | JBool bool | JNum int | JNaN | JStr string

type_synonym jsobj = "string \<rightharpoonup> jsval"

text \<open>\<^verbatim>\<open>obj.k\<close> on an object.\<close>

definition get_prop :: "jsobj \<Rightarrow> string \<Rightarrow> jsval" where
  "get_prop obj k = (case obj k of None \<Rightarrow> JUndefined | Some v \<Rightarrow> v)"

text \<open>\<^verbatim>\<open>obj?.k\<close>, where \<open>None\<close> is an \<^verbatim>\<open>undefined\<close> or \<^verbatim>\<open>null\<close> object.\<close>

definition opt_prop :: "jsobj option \<Rightarrow> string \<Rightarrow> jsval" where
  "opt_prop obj k = (case obj of None \<Rightarrow> JUndefined | Some ob \<Rightarrow> get_prop ob k)"

text \<open>\<^verbatim>\<open>{ ...obj }\<close>: a fresh copy; spreading \<^verbatim>\<open>undefined\<close> or \<^verbatim>\<open>null\<close> gives \<^verbatim>\<open>{}\<close>.\<close>

definition spread :: "jsobj option \<Rightarrow> jsobj" where
  "spread obj = (case obj of None \<Rightarrow> Map.empty | Some ob \<Rightarrow> ob)"

text \<open>\<^verbatim>\<open>obj || {}\<close> for an object that may be missing (an object is always truthy).\<close>

definition or_empty :: "jsobj option \<Rightarrow> jsobj" where
  "or_empty obj = (case obj of None \<Rightarrow> Map.empty | Some ob \<Rightarrow> ob)"

text \<open>ToBoolean.\<close>

fun truthy :: "jsval \<Rightarrow> bool" where
  "truthy JUndefined = False"
| "truthy JNull = False"
| "truthy (JBool b) = b"
| "truthy (JNum n) = (n \<noteq> 0)"
| "truthy JNaN = False"
| "truthy (JStr s) = (s \<noteq> [])"

text \<open>\<^verbatim>\<open>v == null\<close>: true of \<^verbatim>\<open>null\<close> and \<^verbatim>\<open>undefined\<close> only.\<close>

fun eq_null :: "jsval \<Rightarrow> bool" where
  "eq_null JUndefined = True"
| "eq_null JNull = True"
| "eq_null _ = False"

text \<open>Number-to-string conversion of an integer: its decimal digits.\<close>

fun nat_to_str :: "nat \<Rightarrow> string" where
  "nat_to_str n =
     (if n < 10 then [''0123456789'' ! n]
      else nat_to_str (n div 10) @ [''0123456789'' ! (n mod 10)])"

definition int_to_str :: "int \<Rightarrow> string" where
  "int_to_str i = (if i < 0 then CHR ''-'' # nat_to_str (nat (- i)) else nat_to_str (nat i))"

text \<open>ToString on primitives.\<close>

fun to_string :: "jsval \<Rightarrow> string" where
  "to_string JUndefined = ''undefined''"
| "to_string JNull = ''null''"
| "to_string (JBool b) = (if b then ''true'' else ''false'')"
| "to_string (JNum n) = int_to_str n"
| "to_string JNaN = ''NaN''"
| "to_string (JStr s) = s"

text \<open>
  ToNumber on primitives; \<open>None\<close> is \<open>NaN\<close>. The conversion of a string (the
  language's StringToNumber) is a parameter \<open>s2n\<close>.
\<close>

fun to_number :: "(string \<Rightarrow> int option) \<Rightarrow> jsval \<Rightarrow> int option" where
  "to_number s2n JUndefined = None"
| "to_number s2n JNull = Some 0"
| "to_number s2n (JBool b) = Some (if b then 1 else 0)"
| "to_number s2n (JNum n) = Some n"
| "to_number s2n JNaN = None"
| "to_number s2n (JStr s) = s2n s"

fun is_string :: "jsval \<Rightarrow> bool" where
  "is_string (JStr s) = True"
| "is_string _ = False"

text \<open>\<^verbatim>\<open>a + b\<close>: concatenation when either operand is a string, numeric addition otherwise.\<close>

definition js_add :: "(string \<Rightarrow> int option) \<Rightarrow> jsval \<Rightarrow> jsval \<Rightarrow> jsval" where
  "js_add s2n a b =
     (if is_string a \<or> is_string b then JStr (to_string a @ to_string b)
      else (case (to_number s2n a, to_number s2n b) of
              (Some x, Some y) \<Rightarrow> JNum (x + y)
            | _ \<Rightarrow> JNaN))"

text \<open>
  \<^verbatim>\<open>a > b\<close>: two strings are compared lexicographically; otherwise both operands
  are converted to numbers, and a comparison with \<open>NaN\<close> is false.
\<close>

definition js_gt :: "(string \<Rightarrow> int option) \<Rightarrow> jsval \<Rightarrow> jsval \<Rightarrow> bool" where
  "js_gt s2n a b =
     (case (a, b) of
        (JStr s, JStr t) \<Rightarrow> t < s
      | _ \<Rightarrow> (case (to_number s2n a, to_number s2n b) of
                (Some x, Some y) \<Rightarrow> y < x
              | _ \<Rightarrow> False))"

text \<open>
  \<^verbatim>\<open>a.localeCompare(b)\<close>. The handler applies it to the output of
  \<^verbatim>\<open>toISOString()\<close> only: strings of one fixed shape made of ASCII digits and
  separators, on which collation order is the lexicographic order of the characters.
\<close>

definition localeCompare :: "string \<Rightarrow> string \<Rightarrow> int" where
  "localeCompare a b = (if a < b then - 1 else if a = b then 0 else 1)"

text \<open>
  \<^verbatim>\<open>xs.slice().sort(cmp)\<close>: a stable sort by a comparator, here by insertion.
  An element goes before the first element it does not compare greater than.
\<close>

fun sort_insert :: "('a \<Rightarrow> 'a \<Rightarrow> int) \<Rightarrow> 'a \<Rightarrow> 'a list \<Rightarrow> 'a list" where
  "sort_insert cmp x [] = [x]"
| "sort_insert cmp x (y # ys) =
     (if cmp x y \<le> 0 then x # y # ys else y # sort_insert cmp x ys)"

definition js_sort :: "('a \<Rightarrow> 'a \<Rightarrow> int) \<Rightarrow> 'a list \<Rightarrow> 'a list" where
  "js_sort cmp xs = foldr (sort_insert cmp) xs []"

text \<open>\<^verbatim>\<open>s.split("\n")\<close>.\<close>

fun split_newline :: "string \<Rightarrow> string list" where
  "split_newline [] = [[]]"
| "split_newline (c # cs) =
     (if c = CHR 0x0A then [] # split_newline cs
      else (case split_newline cs of
              l # ls \<Rightarrow> (c # l) # ls
            | [] \<Rightarrow> [[c]]))"

text \<open>Array destructuring \<^verbatim>\<open>[a, b, ...] = xs\<close>: a missing position is \<^verbatim>\<open>undefined\<close>.\<close>

definition elem :: "jsval list \<Rightarrow> nat \<Rightarrow> jsval" where
  "elem xs i = (if i < length xs then xs ! i else JUndefined)"

section \<open>Requests, upstream responses and replies\<close>

text \<open>
  The shapes are those documented in the source: the request body
  \<^verbatim>\<open>{ state: object, secrets: {...}, setup_test: boolean, ... }\<close> and the upstream's
  \<^verbatim>\<open>{ results: [{dimensions: [...], metrics: [...]}], meta: { total_rows } }\<close>.
  Every part the handler guards (\<^verbatim>\<open>req.body || {}\<close>, \<^verbatim>\<open>state?.\<close>, \<^verbatim>\<open>secrets?.\<close>,
  \<^verbatim>\<open>results || []\<close>, \<^verbatim>\<open>meta?.\<close>) is optional. The fields \<^verbatim>\<open>agent\<close>,
  \<^verbatim>\<open>customPayload\<close> and \<^verbatim>\<open>sync_id\<close> are read and never used. A state, a
  secrets or a \<^verbatim>\<open>meta\<close> value that is not an object is not a value of these types,
  and the cells of \<^verbatim>\<open>dimensions\<close> and \<^verbatim>\<open>metrics\<close> are primitive values.
\<close>

record body =
  state :: "jsobj option"
  secrets :: "jsobj option"
  setup_test :: jsval

record request =
  req_body :: "body option"

record result_row =
  dimensions :: "jsval list"
  metrics :: "jsval list"

record plausible_data =
  results :: "result_row list option"
  meta :: "jsobj option"

text \<open>A thrown \<^verbatim>\<open>Error\<close> object.\<close>

datatype js_error = JsError (err_name: string) (err_message: string) (err_stack: "string option")

datatype 'a outcome = Throws js_error | Returns 'a

text \<open>
  What \<^verbatim>\<open>json()\<close> can return, by what lines 167--189 do with it. The body is
  \<^verbatim>\<open>null\<close>, on which reading \<^verbatim>\<open>.results\<close> throws, or any other value. Its
  \<^verbatim>\<open>results\<close> is missing or falsy (then \<^verbatim>\<open>[]\<close> is taken), an array, or a value
  that \<^verbatim>\<open>for ... of\<close> cannot walk through without a throw. An element of the array is
  of the documented shape, or is one on which the two destructurings of lines 187--189
  throw: \<^verbatim>\<open>null\<close>, or a value whose \<^verbatim>\<open>dimensions\<close> or \<^verbatim>\<open>metrics\<close> is missing or not
  iterable.
\<close>

datatype result_json = Result result_row | Unreadable

datatype results_json = ResultsFalsy | ResultsArray "result_json list" | ResultsNotIterable

datatype parsed_json = BodyNull | Body results_json "jsobj option"

text \<open>The body of the documented shape.\<close>

definition shaped :: "plausible_data \<Rightarrow> parsed_json" where
  "shaped d =
     Body (case results d of None \<Rightarrow> ResultsFalsy | Some rs \<Rightarrow> ResultsArray (map Result rs))
       (meta d)"

text \<open>What \<^verbatim>\<open>fetch\<close> resolves to, with the outcomes of \<^verbatim>\<open>text()\<close> and \<^verbatim>\<open>json()\<close>.\<close>

record response =
  ok :: bool
  status :: int
  text_body :: "string outcome"
  json_body :: "parsed_json outcome"

datatype date_range = RangeStr string | RangeArr "jsval list"

record plausible_query =
  site_id :: jsval
  metrics_q :: "string list"
  date_range_q :: date_range
  dimensions_q :: "string list"
  pagination_limit :: int
  pagination_offset :: jsval
  include_q :: "(string \<times> bool) list"

record fetch_request =
  url :: string
  http_method :: string
  authorization :: string
  content_type :: string
  query :: plausible_query

text \<open>
  An output row whose timestamp is a string, and an output row as line 196 builds it:
  \<^verbatim>\<open>toISOString()\<close> of a date that \<^verbatim>\<open>moment\<close> could not parse is \<^verbatim>\<open>null\<close>, here
  \<open>None\<close>.
\<close>

record row =
  timestamp :: string
  visitors :: jsval
  pageviews :: jsval
  bounce_rate :: jsval
  visit_duration :: jsval
  visits :: jsval

record raw_row =
  raw_timestamp :: "string option"
  raw_visitors :: jsval
  raw_pageviews :: jsval
  raw_bounce_rate :: jsval
  raw_visit_duration :: jsval
  raw_visits :: jsval

text \<open>The places of lines 166--220 where the language throws a \<^verbatim>\<open>TypeError\<close>.\<close>

datatype throw_site = ReadNullBody | IterateResults | ReadResult nat | CompareNullStamp

text \<open>
  The services the handler calls: the language's string-to-number conversion,
  \<^verbatim>\<open>moment.tz(s, format, zone).toISOString()\<close> (\<open>None\<close> is its \<^verbatim>\<open>null\<close>),
  \<^verbatim>\<open>new Date().toISOString()\<close> and \<^verbatim>\<open>fetch\<close>; and two things the engine decides:
  the message and the stack of the \<^verbatim>\<open>TypeError\<close> it throws at a place, and what lines
  217--220 give on two or more rows of which one has the timestamp \<^verbatim>\<open>null\<close>. There
  the comparator throws when its receiver \<^verbatim>\<open>a.timestamp\<close> is \<^verbatim>\<open>null\<close>, which
  depends on the order in which the engine's sort compares: \<open>None\<close> is that throw,
  \<open>Some v\<close> is the timestamp of the row the sort put last.
\<close>

record env =
  string_to_number :: "string \<Rightarrow> int option"
  moment_tz_iso :: "jsval \<Rightarrow> string \<Rightarrow> string \<Rightarrow> string option"
  date_now_iso :: string
  fetch :: "fetch_request \<Rightarrow> response outcome"
  type_error_text :: "throw_site \<Rightarrow> string \<times> string option"
  sorted_last :: "raw_row list \<Rightarrow> jsval option"

text \<open>
  The body of a reply. A success is written \<open>SuccessBody\<close> when every timestamp in
  it is a string, and \<open>SuccessNullStamp\<close> when some row has the timestamp \<^verbatim>\<open>null\<close>.
\<close>

datatype reply_body =
    ErrorBody string string "string list option"
  | SuccessBody jsobj "(string \<times> row list) list" "(string \<times> string list) list option" bool
  | SuccessNullStamp jsobj "(string \<times> raw_row list) list" "(string \<times> string list) list option" bool

record reply =
  http_status :: int
  reply_json :: reply_body

section \<open>The handler\<close>

definition REPORTING_TIMEZONE :: string where
  "REPORTING_TIMEZONE = ''Europe/Berlin''"

definition PAGE_SIZE :: int where
  "PAGE_SIZE = 1000"

definition plausible_url :: string where
  "plausible_url = ''https://plausible.io/api/v2/query''"

text \<open>\<^verbatim>\<open>String(err)\<close> of an \<^verbatim>\<open>Error\<close> object.\<close>

definition error_to_string :: "js_error \<Rightarrow> string" where
  "error_to_string err =
     (if err_name err = [] then err_message err
      else if err_message err = [] then err_name err
      else err_name err @ '': '' @ err_message err)"

text \<open>\<^verbatim>\<open>err.name || "RuntimeError"\<close> (lines 85 and 256).\<close>

definition error_type_of :: "js_error \<Rightarrow> string" where
  "error_type_of err = (if err_name err \<noteq> [] then err_name err else ''RuntimeError'')"

text \<open>The reply both \<^verbatim>\<open>catch\<close> blocks build (lines 83--87 and 254--258).\<close>

definition catch_reply :: "js_error \<Rightarrow> reply" where
  "catch_reply err =
     \<lparr>http_status = 500,
      reply_json = ErrorBody
        (if err_message err \<noteq> [] then err_message err else error_to_string err)
        (error_type_of err)
        (Some (case err_stack err of
                 None \<Rightarrow> []
               | Some s \<Rightarrow> if s \<noteq> [] then split_newline s else []))\<rparr>"

text \<open>The \<^verbatim>\<open>TypeError\<close> the engine throws at a place.\<close>

definition type_error :: "env \<Rightarrow> throw_site \<Rightarrow> js_error" where
  "type_error e site =
     JsError ''TypeError'' (fst (type_error_text e site)) (snd (type_error_text e site))"

text \<open>
  Lines 65--72 and 144--151, for a response that is not \<^verbatim>\<open>ok\<close>: \<^verbatim>\<open>text()\<close> is
  awaited, and may throw, before the reply is built.
\<close>

definition api_error_reply :: "response \<Rightarrow> reply outcome" where
  "api_error_reply resp =
     (case text_body resp of
        Throws err \<Rightarrow> Throws err
      | Returns txt \<Rightarrow>
          Returns \<lparr>http_status = 500,
           reply_json = ErrorBody
             (''Plausible API request failed (status='' @ int_to_str (status resp) @ '')'')
             ''PlausibleAPIError''
             (Some [txt])\<rparr>)"

text \<open>Lines 94--101: the query window.\<close>

definition plan_range :: "env \<Rightarrow> jsobj option \<Rightarrow> date_range" where
  "plan_range e st =
     (let lastDateTime = opt_prop st ''lastDateTime''
      in if truthy lastDateTime then RangeArr [lastDateTime, JStr (date_now_iso e)]
         else RangeStr ''all'')"

text \<open>Lines 95 and 104: the pagination offset.\<close>

definition plan_offset :: "env \<Rightarrow> jsobj option \<Rightarrow> jsval" where
  "plan_offset e st =
     (let lastOffset = opt_prop st ''lastOffset''
      in if eq_null lastOffset then JNum 0
         else js_add (string_to_number e) lastOffset (JNum PAGE_SIZE))"

text \<open>Lines 108--126: the query sent upstream.\<close>

definition plausibleQuery :: "env \<Rightarrow> jsval \<Rightarrow> jsobj option \<Rightarrow> plausible_query" where
  "plausibleQuery e siteId st =
     \<lparr>site_id = siteId,
      metrics_q = [''visitors'', ''visits'', ''pageviews'', ''bounce_rate'', ''visit_duration''],
      date_range_q = plan_range e st,
      dimensions_q = [''time:hour''],
      pagination_limit = PAGE_SIZE,
      pagination_offset = plan_offset e st,
      include_q = [(''total_rows'', True)]\<rparr>"

text \<open>Lines 56--62: the fixed query of the connection test.\<close>

definition probeQuery :: "jsval \<Rightarrow> plausible_query" where
  "probeQuery siteId =
     \<lparr>site_id = siteId,
      metrics_q = [''visitors''],
      date_range_q = RangeStr ''day'',
      dimensions_q = [''time:day''],
      pagination_limit = 1,
      pagination_offset = JNum 0,
      include_q = []\<rparr>"

definition post :: "jsval \<Rightarrow> plausible_query \<Rightarrow> fetch_request" where
  "post plausibleApiKey q =
     \<lparr>url = plausible_url,
      http_method = ''POST'',
      authorization = ''Bearer '' @ to_string plausibleApiKey,
      content_type = ''application/json'',
      query = q\<rparr>"

text \<open>Lines 187--203: one output row from a result of the documented shape.\<close>

definition to_row :: "env \<Rightarrow> result_row \<Rightarrow> raw_row" where
  "to_row e r =
     (let dimDateTime = elem (dimensions r) 0;
          m = metrics r
      in \<lparr>raw_timestamp = moment_tz_iso e dimDateTime ''YYYY-MM-DD HH:mm'' REPORTING_TIMEZONE,
          raw_visitors = elem m 0,
          raw_pageviews = elem m 2,
          raw_bounce_rate = elem m 3,
          raw_visit_duration = elem m 4,
          raw_visits = elem m 1\<rparr>)"

text \<open>
  Lines 184--204: the loop over the results, from the element of index \<open>i\<close> on. It
  stops with a \<^verbatim>\<open>TypeError\<close> at the first element it cannot destructure.
\<close>

fun transform :: "env \<Rightarrow> nat \<Rightarrow> result_json list \<Rightarrow> raw_row list outcome" where
  "transform e i [] = Returns []"
| "transform e i (Unreadable # rs) = Throws (type_error e (ReadResult i))"
| "transform e i (Result r # rs) =
     (case transform e (Suc i) rs of
        Throws err \<Rightarrow> Throws err
      | Returns rows \<Rightarrow> Returns (to_row e r # rows))"

text \<open>Lines 166--204: the rows and the reported total of the parsed body.\<close>

definition read_page :: "env \<Rightarrow> parsed_json \<Rightarrow> (raw_row list \<times> jsval) outcome" where
  "read_page e plausibleData =
     (case plausibleData of
        BodyNull \<Rightarrow> Throws (type_error e ReadNullBody)
      | Body res m \<Rightarrow>
          (let totalRows = opt_prop m ''total_rows''
           in case res of
                ResultsFalsy \<Rightarrow> Returns ([], totalRows)
              | ResultsNotIterable \<Rightarrow> Throws (type_error e IterateResults)
              | ResultsArray rs \<Rightarrow>
                  (case transform e 0 rs of
                     Throws err \<Rightarrow> Throws err
                   | Returns rows \<Rightarrow> Returns (rows, totalRows))))"

text \<open>The rows as rows with string timestamps, when no timestamp is \<^verbatim>\<open>null\<close>.\<close>

fun all_parsed :: "raw_row list \<Rightarrow> row list option" where
  "all_parsed [] = Some []"
| "all_parsed (r # rs) =
     (case (raw_timestamp r, all_parsed rs) of
        (Some ts, Some rows) \<Rightarrow>
          Some (\<lparr>timestamp = ts, visitors = raw_visitors r, pageviews = raw_pageviews r,
                 bounce_rate = raw_bounce_rate r, visit_duration = raw_visit_duration r,
                 visits = raw_visits r\<rparr> # rows)
      | _ \<Rightarrow> None)"

text \<open>Line 207.\<close>

definition has_more :: "env \<Rightarrow> jsval \<Rightarrow> jsval \<Rightarrow> bool" where
  "has_more e totalRows offset =
     js_gt (string_to_number e) totalRows (js_add (string_to_number e) offset (JNum PAGE_SIZE))"

text \<open>Lines 217--220, reached with at least one row.\<close>

definition maxDateTime :: "row list \<Rightarrow> string" where
  "maxDateTime rows =
     (let sortedByDate = js_sort (\<lambda>a b. localeCompare (timestamp a) (timestamp b)) rows
      in timestamp (sortedByDate ! (length sortedByDate - 1)))"

text \<open>Lines 212--224.\<close>

definition new_state :: "jsobj option \<Rightarrow> jsval \<Rightarrow> row list \<Rightarrow> bool \<Rightarrow> jsobj" where
  "new_state st offset rows hasMore =
     (let newState = spread st
      in if hasMore then newState(''lastOffset'' \<mapsto> offset)
         else if length rows > 0 then
           (newState(''lastDateTime'' \<mapsto> JStr (maxDateTime rows)))(''lastOffset'' := None)
         else newState)"

text \<open>
  Lines 206--224 as one function: from the state the request was planned with, the
  offset requested, the rows of the page and the reported total, to the new state
  and the continuation flag.
\<close>

definition advance :: "env \<Rightarrow> jsobj option \<Rightarrow> jsval \<Rightarrow> row list \<Rightarrow> jsval \<Rightarrow> jsobj \<times> bool" where
  "advance e st offset rows totalRows =
     (let hasMore = has_more e totalRows offset
      in (new_state st offset rows hasMore, hasMore))"

text \<open>
  Lines 217--220 on rows of which one has the timestamp \<^verbatim>\<open>null\<close>: with one row
  the comparator is never called and the timestamp is that row's; with more the
  engine decides.
\<close>

definition null_stamp_max :: "env \<Rightarrow> raw_row list \<Rightarrow> jsval option" where
  "null_stamp_max e raw =
     (case raw of
        [r] \<Rightarrow> Some (case raw_timestamp r of None \<Rightarrow> JNull | Some ts \<Rightarrow> JStr ts)
      | _ \<Rightarrow> sorted_last e raw)"

text \<open>
  Lines 206--250: from the rows and the total to the reply. When every timestamp is
  a string this is \<open>advance\<close>. When one is \<^verbatim>\<open>null\<close> (so there is a row), the same
  lines give the same state but for \<open>lastDateTime\<close>, which is what the sort left last,
  or they throw in the comparator.
\<close>

definition finish :: "env \<Rightarrow> jsobj option \<Rightarrow> jsval \<Rightarrow> raw_row list \<Rightarrow> jsval \<Rightarrow> reply outcome" where
  "finish e st offset raw totalRows =
     (case all_parsed raw of
        Some rows \<Rightarrow>
          (let (newState, hasMore) = advance e st offset rows totalRows
           in Returns \<lparr>http_status = 200,
                reply_json = SuccessBody newState
                  [(''plausible_timeseries'', rows)]
                  (Some [(''plausible_timeseries'', [''timestamp''])])
                  hasMore\<rparr>)
      | None \<Rightarrow>
          (if has_more e totalRows offset then
             Returns \<lparr>http_status = 200,
               reply_json = SuccessNullStamp ((spread st)(''lastOffset'' \<mapsto> offset))
                 [(''plausible_timeseries'', raw)]
                 (Some [(''plausible_timeseries'', [''timestamp''])])
                 True\<rparr>
           else
             (case null_stamp_max e raw of
                None \<Rightarrow> Throws (type_error e CompareNullStamp)
              | Some v \<Rightarrow>
                  Returns \<lparr>http_status = 200,
                    reply_json = SuccessNullStamp
                      (((spread st)(''lastDateTime'' \<mapsto> v))(''lastOffset'' := None))
                      [(''plausible_timeseries'', raw)]
                      (Some [(''plausible_timeseries'', [''timestamp''])])
                      False\<rparr>)))"

text \<open>Lines 166--250: from the parsed upstream data to the reply, or to a throw.\<close>

definition sync_reply :: "env \<Rightarrow> jsobj option \<Rightarrow> jsval \<Rightarrow> parsed_json \<Rightarrow> reply outcome" where
  "sync_reply e st offset plausibleData =
     (case read_page e plausibleData of
        Throws err \<Rightarrow> Throws err
      | Returns (rows, totalRows) \<Rightarrow> finish e st offset rows totalRows)"

text \<open>Lines 50--79: the inner \<^verbatim>\<open>try\<close> block of the connection test.\<close>

definition setup_test_try :: "env \<Rightarrow> jsval \<Rightarrow> jsval \<Rightarrow> jsobj option \<Rightarrow> reply outcome" where
  "setup_test_try e plausibleApiKey siteId st =
     (case fetch e (post plausibleApiKey (probeQuery siteId)) of
        Throws err \<Rightarrow> Throws err
      | Returns resp \<Rightarrow>
          if \<not> ok resp then api_error_reply resp
          else Returns \<lparr>http_status = 200, reply_json = SuccessBody (or_empty st) [] None False\<rparr>)"

text \<open>Lines 48--89: the connection test, with its own \<^verbatim>\<open>catch\<close>.\<close>

definition setup_test_reply :: "env \<Rightarrow> jsval \<Rightarrow> jsval \<Rightarrow> jsobj option \<Rightarrow> reply" where
  "setup_test_reply e plausibleApiKey siteId st =
     (case setup_test_try e plausibleApiKey siteId st of
        Throws err \<Rightarrow> catch_reply err
      | Returns r \<Rightarrow> r)"

text \<open>Lines 31--36: the parts of the request body, \<^verbatim>\<open>req.body || {}\<close> destructured.\<close>

definition req_state :: "request \<Rightarrow> jsobj option" where
  "req_state req = (case req_body req of None \<Rightarrow> None | Some b \<Rightarrow> state b)"

definition req_secrets :: "request \<Rightarrow> jsobj option" where
  "req_secrets req = (case req_body req of None \<Rightarrow> None | Some b \<Rightarrow> secrets b)"

definition req_setup_test :: "request \<Rightarrow> jsval" where
  "req_setup_test req = (case req_body req of None \<Rightarrow> JUndefined | Some b \<Rightarrow> setup_test b)"

text \<open>
  Lines 29--250: the outer \<^verbatim>\<open>try\<close> block. It returns a reply, or an exception
  leaves it: one that \<^verbatim>\<open>fetch\<close>, \<^verbatim>\<open>text()\<close> or \<^verbatim>\<open>json()\<close> threw, or a
  \<^verbatim>\<open>TypeError\<close> of lines 166--220.
\<close>

definition try_block :: "env \<Rightarrow> request \<Rightarrow> reply outcome" where
  "try_block e req =
     (let st = req_state req;
          plausibleApiKey = opt_prop (req_secrets req) ''plausibleApiKey'';
          siteId = opt_prop (req_secrets req) ''siteId''
      in if \<not> truthy plausibleApiKey \<or> \<not> truthy siteId then
           Returns \<lparr>http_status = 400,
            reply_json = ErrorBody
              (''Missing '' @ [CHR 0x27] @ ''plausibleApiKey'' @ [CHR 0x27] @ '' or ''
                 @ [CHR 0x27] @ ''siteId'' @ [CHR 0x27] @ '' secret!'')
              ''ConfigurationError'' None\<rparr>
         else if truthy (req_setup_test req) then
           Returns (setup_test_reply e plausibleApiKey siteId st)
         else
           (case fetch e (post plausibleApiKey (plausibleQuery e siteId st)) of
              Throws err \<Rightarrow> Throws err
            | Returns resp \<Rightarrow>
                if \<not> ok resp then api_error_reply resp
                else (case json_body resp of
                        Throws err \<Rightarrow> Throws err
                      | Returns plausibleData \<Rightarrow>
                          sync_reply e st (plan_offset e st) plausibleData)))"

text \<open>Lines 20--260: the whole handler, the \<^verbatim>\<open>try\<close> block and its \<^verbatim>\<open>catch\<close>.\<close>

definition syncWithPlausible :: "env \<Rightarrow> request \<Rightarrow> reply" where
  "syncWithPlausible e req =
     (case try_block e req of
        Throws err \<Rightarrow> catch_reply err
      | Returns r \<Rightarrow> r)"

text \<open>
  The exception that ends an invocation in one of the two \<^verbatim>\<open>catch\<close> blocks, if
  there is one: the inner one in a connection test, the outer one otherwise.
\<close>

definition caught :: "env \<Rightarrow> request \<Rightarrow> js_error option" where
  "caught e req =
     (case try_block e req of
        Throws err \<Rightarrow> Some err
      | Returns r \<Rightarrow>
          if truthy (opt_prop (req_secrets req) ''plausibleApiKey'')
             \<and> truthy (opt_prop (req_secrets req) ''siteId'') \<and> truthy (req_setup_test req)
          then (case setup_test_try e (opt_prop (req_secrets req) ''plausibleApiKey'')
                       (opt_prop (req_secrets req) ''siteId'') (req_state req) of
                  Throws err \<Rightarrow> Some err
                | Returns r' \<Rightarrow> None)
          else None)"

text \<open>
  The request the handler sends upstream when both secrets are present: the fixed
  query in a connection test (lines 50--63), the planned one otherwise (lines 134--141).
\<close>

definition sent_request :: "env \<Rightarrow> request \<Rightarrow> fetch_request" where
  "sent_request e req =
     (let plausibleApiKey = opt_prop (req_secrets req) ''plausibleApiKey'';
          siteId = opt_prop (req_secrets req) ''siteId''
      in if truthy (req_setup_test req) then post plausibleApiKey (probeQuery siteId)
         else post plausibleApiKey (plausibleQuery e siteId (req_state req)))"

section \<open>Concrete inputs\<close>

text \<open>
  An environment to evaluate the handler in: no string converts to a number, the
  timezone conversion of this environment returns a dimension string as it is and
  \<^verbatim>\<open>null\<close> for a dimension that is not a string, the upstream answers every request
  with \<open>out\<close>, and the sort of this engine calls the comparator on a \<^verbatim>\<open>null\<close>
  timestamp whenever there is one.
\<close>

definition env_with :: "response outcome \<Rightarrow> env" where
  "env_with out =
     \<lparr>string_to_number = (\<lambda>s. None),
      moment_tz_iso = (\<lambda>v fmt zone. case v of JStr s \<Rightarrow> Some s | _ \<Rightarrow> None),
      date_now_iso = ''2024-01-03T00:00:00.000Z'',
      fetch = (\<lambda>rq. out),
      type_error_text = (\<lambda>site. (''Cannot read properties'', None)),
      sorted_last = (\<lambda>rows. None)\<rparr>"

definition page :: "string list \<Rightarrow> jsval \<Rightarrow> plausible_data" where
  "page stamps tot =
     \<lparr>results = Some (map (\<lambda>s. \<lparr>dimensions = [JStr s], metrics = [JNum 1, JNum 2, JNum 3, JNum 4, JNum 5]\<rparr>) stamps),
      meta = Some [''total_rows'' \<mapsto> tot]\<rparr>"

definition ok_response :: "plausible_data \<Rightarrow> response outcome" where
  "ok_response d =
     Returns \<lparr>ok = True, status = 200, text_body = Returns [], json_body = Returns (shaped d)\<rparr>"

definition sync_request :: "jsobj option \<Rightarrow> jsval \<Rightarrow> request" where
  "sync_request st test =
     \<lparr>req_body = Some \<lparr>state = st,
        secrets = Some [''plausibleApiKey'' \<mapsto> JStr ''key'', ''siteId'' \<mapsto> JStr ''example.com''],
        setup_test = test\<rparr>\<rparr>"

text \<open>An environment whose upstream cannot be reached, and an output row with a given timestamp.\<close>

definition no_upstream :: env where
  "no_upstream = env_with (Throws (JsError ''TypeError'' ''fetch failed'' None))"

definition example_row :: "string \<Rightarrow> row" where
  "example_row s =
     \<lparr>timestamp = s, visitors = JNum 1, pageviews = JNum 3, bounce_rate = JNum 4,
      visit_duration = JNum 5, visits = JNum 2\<rparr>"

section \<open>Facts about the sort and the comparison\<close>

lemma set_sort_insert: "set (sort_insert cmp x xs) = insert x (set xs)"
  by (induction xs) auto

lemma set_js_sort: "set (js_sort cmp xs) = set xs"
  unfolding js_sort_def by (induction xs) (auto simp: set_sort_insert)

lemma length_sort_insert: "length (sort_insert cmp x xs) = Suc (length xs)"
  by (induction xs) auto

lemma length_js_sort: "length (js_sort cmp xs) = length xs"
  unfolding js_sort_def by (induction xs) (auto simp: length_sort_insert)

lemma localeCompare_le: "(localeCompare a b \<le> 0) = (a \<le> b)"
  by (auto simp: localeCompare_def)

lemma sorted_sort_insert:
  "sorted (map timestamp xs) \<Longrightarrow>
   sorted (map timestamp (sort_insert (\<lambda>a b. localeCompare (timestamp a) (timestamp b)) x xs))"
  by (induction xs) (auto simp: localeCompare_le set_sort_insert)

lemma sorted_js_sort:
  "sorted (map timestamp (js_sort (\<lambda>a b. localeCompare (timestamp a) (timestamp b)) xs))"
  unfolding js_sort_def by (induction xs) (auto simp: sorted_sort_insert)

lemma sorted_last_Max: "sorted ys \<Longrightarrow> ys \<noteq> [] \<Longrightarrow> last ys = Max (set ys)"
  by (induction ys) (auto simp: max_def intro: antisym)

text \<open>The last element of the sorted copy carries the greatest timestamp of the page.\<close>

lemma maxDateTime_Max:
  assumes "rows \<noteq> []"
  shows "maxDateTime rows = Max (timestamp ` set rows)"
proof -
  let ?s = "js_sort (\<lambda>a b. localeCompare (timestamp a) (timestamp b)) rows"
  have ne: "?s \<noteq> []"
    using assms length_js_sort [of _ rows] by (metis length_0_conv)
  have "maxDateTime rows = timestamp (last ?s)"
    using ne by (simp add: maxDateTime_def Let_def last_conv_nth)
  also have "\<dots> = last (map timestamp ?s)"
    using ne by (simp add: last_map)
  also have "\<dots> = Max (set (map timestamp ?s))"
    using ne by (intro sorted_last_Max sorted_js_sort) simp
  also have "\<dots> = Max (timestamp ` set rows)"
    by (simp add: set_js_sort)
  finally show ?thesis .
qed

lemma has_more_num: "has_more e (JNum t) (JNum off) = (off + PAGE_SIZE < t)"
  by (simp add: has_more_def js_gt_def js_add_def)

section \<open>The Checkpoint Advancer\<close>

text \<open>
  C1. For a numeric total \<open>t\<close> and a numeric requested offset \<open>off\<close>, the
  continuation flag that \<open>advance\<close> returns is exactly \<open>t > off + PAGE_SIZE\<close>;
  at the boundary \<open>t = off + PAGE_SIZE\<close> the flag is false.
\<close>

theorem hasMore_is_strict_comparison:
  "snd (advance e st (JNum off) rows (JNum t)) = (t > off + PAGE_SIZE)
   \<and> snd (advance e st (JNum off) rows (JNum (off + PAGE_SIZE))) = False"
  by (simp add: advance_def Let_def has_more_num)

theorem hasMore_is_strict_comparison_witness:
  "snd (advance no_upstream None (JNum 1000) [] (JNum 2500)) = True
   \<and> snd (advance no_upstream None (JNum 1000) [] (JNum 2000)) = False"
  using hasMore_is_strict_comparison [of no_upstream None 1000 "[]" 2500]
  by (simp add: PAGE_SIZE_def)

text \<open>
  C2. When the total strictly exceeds \<open>off + PAGE_SIZE\<close>, \<open>advance\<close> returns
  \<open>hasMore = True\<close> and the old state with \<open>lastOffset\<close> set to the offset that was
  requested, \<open>off\<close> itself; \<open>lastDateTime\<close> is what it was.
\<close>

theorem advance_more_keeps_requested_offset:
  assumes "t > off + PAGE_SIZE"
  shows "advance e st (JNum off) rows (JNum t) = ((spread st)(''lastOffset'' \<mapsto> JNum off), True)
     \<and> fst (advance e st (JNum off) rows (JNum t)) ''lastOffset'' = Some (JNum off)
     \<and> fst (advance e st (JNum off) rows (JNum t)) ''lastDateTime'' = spread st ''lastDateTime''"
  using assms by (simp add: advance_def Let_def has_more_num new_state_def)

theorem advance_more_keeps_requested_offset_witness:
  "(1000::int) + PAGE_SIZE < 2500
   \<and> advance no_upstream (Some [''lastDateTime'' \<mapsto> JStr ''2024-01-01T00:00:00.000Z'']) (JNum 1000) []
       (JNum 2500)
     = ([''lastDateTime'' \<mapsto> JStr ''2024-01-01T00:00:00.000Z'', ''lastOffset'' \<mapsto> JNum 1000], True)"
proof -
  have h: "(1000::int) + PAGE_SIZE < 2500" by (simp add: PAGE_SIZE_def)
  show ?thesis
    using h advance_more_keeps_requested_offset
      [OF h, of no_upstream "Some [''lastDateTime'' \<mapsto> JStr ''2024-01-01T00:00:00.000Z'']" "[]"]
    by (simp add: spread_def)
qed

text \<open>
  C3. When the total is at most \<open>off + PAGE_SIZE\<close> and the page has a row,
  \<open>advance\<close> returns \<open>hasMore = False\<close>, sets \<open>lastDateTime\<close> to the greatest timestamp
  of the rows (greatest in the lexicographic order of the strings, which on ISO-8601 UTC
  strings of one shape is the chronological order) and removes the key \<open>lastOffset\<close>
  from the state: the key is gone, not set to \<open>0\<close>.
\<close>

theorem advance_done_sets_watermark:
  assumes "t \<le> off + PAGE_SIZE" and "rows \<noteq> []"
  shows "snd (advance e st (JNum off) rows (JNum t)) = False
     \<and> fst (advance e st (JNum off) rows (JNum t)) ''lastDateTime''
         = Some (JStr (Max (timestamp ` set rows)))
     \<and> fst (advance e st (JNum off) rows (JNum t)) ''lastOffset'' = None"
  using assms by (simp add: advance_def Let_def has_more_num new_state_def maxDateTime_Max)

theorem advance_done_sets_watermark_witness:
  "(2500::int) \<le> 2000 + PAGE_SIZE
   \<and> [example_row ''2024-01-02T05:00:00.000Z'', example_row ''2024-01-01T05:00:00.000Z''] \<noteq> []
   \<and> snd (advance no_upstream (Some [''lastOffset'' \<mapsto> JNum 1000]) (JNum 2000)
         [example_row ''2024-01-02T05:00:00.000Z'', example_row ''2024-01-01T05:00:00.000Z'']
         (JNum 2500)) = False
   \<and> fst (advance no_upstream (Some [''lastOffset'' \<mapsto> JNum 1000]) (JNum 2000)
         [example_row ''2024-01-02T05:00:00.000Z'', example_row ''2024-01-01T05:00:00.000Z'']
         (JNum 2500)) ''lastDateTime''
       = Some (JStr ''2024-01-02T05:00:00.000Z'')
   \<and> fst (advance no_upstream (Some [''lastOffset'' \<mapsto> JNum 1000]) (JNum 2000)
         [example_row ''2024-01-02T05:00:00.000Z'', example_row ''2024-01-01T05:00:00.000Z'']
         (JNum 2500)) ''lastOffset''
       = None"
proof -
  have h: "(2500::int) \<le> 2000 + PAGE_SIZE" by (simp add: PAGE_SIZE_def)
  have n: "[example_row ''2024-01-02T05:00:00.000Z'', example_row ''2024-01-01T05:00:00.000Z''] \<noteq> []"
    by simp
  show ?thesis
    using h advance_done_sets_watermark [OF h n, of no_upstream "Some [''lastOffset'' \<mapsto> JNum 1000]"]
    by (simp add: example_row_def)
qed

section \<open>The Sync Planner\<close>

text \<open>
  C4. The offset of the query is \<open>0\<close> when the state has no \<open>lastOffset\<close> (also when
  there is no state at all), and \<open>k + PAGE_SIZE\<close> when \<open>lastOffset\<close> is the number
  \<open>k\<close>; so \<open>lastOffset = 0\<close> gives \<open>PAGE_SIZE\<close>. It is the offset sent upstream.
\<close>

theorem plan_offset_cases:
  "(spread st ''lastOffset'' = None \<longrightarrow> plan_offset e st = JNum 0)
   \<and> (spread st ''lastOffset'' = Some (JNum k) \<longrightarrow> plan_offset e st = JNum (k + PAGE_SIZE))
   \<and> pagination_offset (plausibleQuery e siteId st) = plan_offset e st"
  by (cases st)
     (auto simp: plan_offset_def plausibleQuery_def spread_def opt_prop_def get_prop_def js_add_def Let_def)

theorem plan_offset_cases_witness:
  "spread None ''lastOffset'' = None \<and> plan_offset no_upstream None = JNum 0
   \<and> spread (Some [''lastOffset'' \<mapsto> JNum 0]) ''lastOffset'' = Some (JNum 0)
   \<and> plan_offset no_upstream (Some [''lastOffset'' \<mapsto> JNum 0]) = JNum 1000"
  using plan_offset_cases [of None no_upstream 0 JNull]
    plan_offset_cases [of "Some [''lastOffset'' \<mapsto> JNum 0]" no_upstream 0 JNull]
  by (simp add: spread_def PAGE_SIZE_def)

text \<open>
  C5. The window of the query is the string \<open>''all''\<close> when the state has no
  \<open>lastDateTime\<close>, and the pair of \<open>lastDateTime\<close> and the instant of the invocation
  when \<open>lastDateTime\<close> is a timestamp (a string that is not empty). It is the window
  sent upstream.
\<close>

theorem plan_range_cases:
  "(spread st ''lastDateTime'' = None \<longrightarrow> plan_range e st = RangeStr ''all'')
   \<and> (spread st ''lastDateTime'' = Some (JStr ts) \<and> ts \<noteq> [] \<longrightarrow>
        plan_range e st = RangeArr [JStr ts, JStr (date_now_iso e)])
   \<and> date_range_q (plausibleQuery e siteId st) = plan_range e st"
  by (cases st)
     (auto simp: plan_range_def plausibleQuery_def spread_def opt_prop_def get_prop_def Let_def)

theorem plan_range_cases_witness:
  "spread (Some Map.empty) ''lastDateTime'' = None
   \<and> plan_range no_upstream (Some Map.empty) = RangeStr ''all''
   \<and> spread (Some [''lastDateTime'' \<mapsto> JStr ''2024-01-01T00:00:00Z'']) ''lastDateTime''
       = Some (JStr ''2024-01-01T00:00:00Z'')
   \<and> ''2024-01-01T00:00:00Z'' \<noteq> []
   \<and> plan_range no_upstream (Some [''lastDateTime'' \<mapsto> JStr ''2024-01-01T00:00:00Z''])
       = RangeArr [JStr ''2024-01-01T00:00:00Z'', JStr ''2024-01-03T00:00:00.000Z'']"
  using plan_range_cases [of "Some Map.empty" no_upstream "[]" JNull]
    plan_range_cases [of "Some [''lastDateTime'' \<mapsto> JStr ''2024-01-01T00:00:00Z'']" no_upstream
      "''2024-01-01T00:00:00Z''" JNull]
  by (simp add: spread_def no_upstream_def env_with_def)

text \<open>
  C10. Presence of \<open>lastDateTime\<close> is decided by truthiness: a \<open>lastDateTime\<close> that is
  there but falsy, such as the empty string, gives the window \<open>''all''\<close>. Presence of
  \<open>lastOffset\<close> is decided by \<^verbatim>\<open>== null\<close>: the value \<open>0\<close> is an offset and gives
  \<open>PAGE_SIZE\<close>, as every value other than \<^verbatim>\<open>null\<close> has \<open>PAGE_SIZE\<close> added to it,
  while \<^verbatim>\<open>null\<close> gives \<open>0\<close>.
\<close>

theorem presence_tests:
  "(spread st ''lastDateTime'' = Some v \<and> \<not> truthy v \<longrightarrow> plan_range e st = RangeStr ''all'')
   \<and> (spread st ''lastDateTime'' = Some (JStr []) \<longrightarrow> plan_range e st = RangeStr ''all'')
   \<and> (spread st ''lastOffset'' = Some (JNum 0) \<longrightarrow> plan_offset e st = JNum PAGE_SIZE)
   \<and> (spread st ''lastOffset'' = Some w \<and> \<not> eq_null w \<longrightarrow>
        plan_offset e st = js_add (string_to_number e) w (JNum PAGE_SIZE))
   \<and> (spread st ''lastOffset'' = Some JNull \<longrightarrow> plan_offset e st = JNum 0)"
  by (cases st)
     (auto simp: plan_range_def plan_offset_def spread_def opt_prop_def get_prop_def js_add_def Let_def)

theorem presence_tests_witness:
  "spread (Some [''lastDateTime'' \<mapsto> JStr [], ''lastOffset'' \<mapsto> JNum 0]) ''lastDateTime'' = Some (JStr [])
   \<and> \<not> truthy (JStr [])
   \<and> plan_range no_upstream (Some [''lastDateTime'' \<mapsto> JStr [], ''lastOffset'' \<mapsto> JNum 0]) = RangeStr ''all''
   \<and> spread (Some [''lastDateTime'' \<mapsto> JStr [], ''lastOffset'' \<mapsto> JNum 0]) ''lastOffset'' = Some (JNum 0)
   \<and> \<not> eq_null (JNum 0)
   \<and> plan_offset no_upstream (Some [''lastDateTime'' \<mapsto> JStr [], ''lastOffset'' \<mapsto> JNum 0]) = JNum 1000"
  using presence_tests [of "Some [''lastDateTime'' \<mapsto> JStr [], ''lastOffset'' \<mapsto> JNum 0]" "JStr []"
      no_upstream "JNum 0"]
  by (simp add: spread_def PAGE_SIZE_def)

section \<open>Checkpoints along a run\<close>

lemmas handler_defs =
  syncWithPlausible_def try_block_def sync_request_def env_with_def ok_response_def page_def
  shaped_def req_state_def req_secrets_def req_setup_test_def opt_prop_def get_prop_def
  post_def plausibleQuery_def sync_reply_def read_page_def finish_def to_row_def elem_def
  advance_def has_more_def new_state_def plan_offset_def plan_range_def
  js_gt_def js_add_def spread_def PAGE_SIZE_def maxDateTime_def js_sort_def

text \<open>
  C6, as stated, fails. Two invocations in a row, the second one called with the state
  the first one returned: the first sees 2500 rows in total at offset 0 and returns
  \<open>hasMore = True\<close> with \<open>lastOffset = 0\<close>; the second asks for offset 1000, gets an empty
  page and a total of 900, and returns \<open>hasMore = False\<close> with \<open>lastOffset = 0\<close> still in
  the state.
\<close>

theorem stale_offset_counterexample:
  "reply_json (syncWithPlausible
      (env_with (ok_response (page [''2024-01-02T05:00:00.000Z''] (JNum 2500))))
      (sync_request None (JBool False)))
     = SuccessBody [''lastOffset'' \<mapsto> JNum 0]
         [(''plausible_timeseries'',
           [\<lparr>timestamp = ''2024-01-02T05:00:00.000Z'', visitors = JNum 1, pageviews = JNum 3,
              bounce_rate = JNum 4, visit_duration = JNum 5, visits = JNum 2\<rparr>])]
         (Some [(''plausible_timeseries'', [''timestamp''])]) True
   \<and> reply_json (syncWithPlausible
      (env_with (ok_response (page [] (JNum 900))))
      (sync_request (Some [''lastOffset'' \<mapsto> JNum 0]) (JBool False)))
     = SuccessBody [''lastOffset'' \<mapsto> JNum 0]
         [(''plausible_timeseries'', [])]
         (Some [(''plausible_timeseries'', [''timestamp''])]) False"
  by (simp add: handler_defs Let_def)

text \<open>
  C6, amended. For every state, so for every state a run reaches: a step with
  \<open>hasMore = True\<close> leaves \<open>lastOffset\<close> set to the requested offset; a step with
  \<open>hasMore = False\<close> and a page that is not empty removes \<open>lastOffset\<close>; a step with
  \<open>hasMore = False\<close> and an empty page returns the state as it was. Hence
  \<open>lastOffset\<close> is in the returned state exactly if the step saw \<open>hasMore = True\<close>, or
  the page was empty and \<open>lastOffset\<close> was in the state before.
\<close>

theorem offset_presence_after_advance:
  "(snd (advance e st offset rows totalRows) \<longrightarrow>
      fst (advance e st offset rows totalRows) ''lastOffset'' = Some offset)
   \<and> (\<not> snd (advance e st offset rows totalRows) \<and> rows \<noteq> [] \<longrightarrow>
      fst (advance e st offset rows totalRows) ''lastOffset'' = None)
   \<and> (\<not> snd (advance e st offset rows totalRows) \<and> rows = [] \<longrightarrow>
      fst (advance e st offset rows totalRows) = spread st)
   \<and> (fst (advance e st offset rows totalRows) ''lastOffset'' \<noteq> None) =
      (snd (advance e st offset rows totalRows) \<or> rows = [] \<and> spread st ''lastOffset'' \<noteq> None)"
  by (auto simp: advance_def new_state_def Let_def)

theorem offset_presence_after_advance_witness:
  "snd (advance no_upstream None (JNum 0) [example_row ''2024-01-02T05:00:00.000Z''] (JNum 2500))
   \<and> fst (advance no_upstream None (JNum 0) [example_row ''2024-01-02T05:00:00.000Z''] (JNum 2500))
        ''lastOffset'' = Some (JNum 0)
   \<and> \<not> snd (advance no_upstream (Some [''lastOffset'' \<mapsto> JNum 0]) (JNum 1000) [] (JNum 900))
   \<and> fst (advance no_upstream (Some [''lastOffset'' \<mapsto> JNum 0]) (JNum 1000) [] (JNum 900))
        = [''lastOffset'' \<mapsto> JNum 0]"
  using offset_presence_after_advance
      [of no_upstream None "JNum 0" "[example_row ''2024-01-02T05:00:00.000Z'']" "JNum 2500"]
    offset_presence_after_advance
      [of no_upstream "Some [''lastOffset'' \<mapsto> JNum 0]" "JNum 1000" "[]" "JNum 900"]
  by (simp add: advance_def has_more_num PAGE_SIZE_def spread_def)

section \<open>A missing total\<close>

text \<open>
  C7, as stated, fails. The upstream answers without \<open>meta\<close>, so that \<open>total_rows\<close> is
  missing, and with a page of one row: the handler returns \<open>hasMore = False\<close> and moves
  \<open>lastDateTime\<close> from \<open>2024-01-01\<close> to the timestamp of the row.
\<close>

theorem missing_total_counterexample:
  "opt_prop (meta \<lparr>results = Some [\<lparr>dimensions = [JStr ''2024-01-02T05:00:00.000Z''], metrics = []\<rparr>],
                   meta = None\<rparr>) ''total_rows'' = JUndefined
   \<and> reply_json (syncWithPlausible
      (env_with (ok_response
         \<lparr>results = Some [\<lparr>dimensions = [JStr ''2024-01-02T05:00:00.000Z''], metrics = []\<rparr>],
          meta = None\<rparr>))
      (sync_request (Some [''lastDateTime'' \<mapsto> JStr ''2024-01-01T00:00:00.000Z'']) (JBool False)))
     = SuccessBody [''lastDateTime'' \<mapsto> JStr ''2024-01-02T05:00:00.000Z'']
         [(''plausible_timeseries'',
           [\<lparr>timestamp = ''2024-01-02T05:00:00.000Z'', visitors = JUndefined, pageviews = JUndefined,
              bounce_rate = JUndefined, visit_duration = JUndefined, visits = JUndefined\<rparr>])]
         (Some [(''plausible_timeseries'', [''timestamp''])]) False"
  by (simp add: handler_defs Let_def)

text \<open>
  C7, amended. When the total is missing, or is any value whose conversion to a
  number is \<open>NaN\<close>, \<open>advance\<close> returns \<open>hasMore = False\<close> whether the page is empty or
  not. With a page that is not empty it sets \<open>lastDateTime\<close> to the greatest timestamp of
  the rows and removes \<open>lastOffset\<close>; with an empty page it returns the state as it was.
\<close>

theorem missing_total_is_exhausted:
  assumes "to_number (string_to_number e) totalRows = None"
  shows "snd (advance e st (JNum off) rows totalRows) = False
    \<and> (rows \<noteq> [] \<longrightarrow>
         fst (advance e st (JNum off) rows totalRows)
           = ((spread st)(''lastDateTime'' \<mapsto> JStr (Max (timestamp ` set rows))))(''lastOffset'' := None))
    \<and> (rows = [] \<longrightarrow> fst (advance e st (JNum off) rows totalRows) = spread st)"
  using assms
  by (cases totalRows)
     (auto simp: advance_def new_state_def has_more_def js_gt_def js_add_def Let_def maxDateTime_Max)

theorem missing_total_is_exhausted_witness:
  "to_number (string_to_number no_upstream) JUndefined = None
   \<and> [example_row ''2024-01-02T05:00:00.000Z''] \<noteq> []
   \<and> snd (advance no_upstream (Some [''lastOffset'' \<mapsto> JNum 0]) (JNum 1000)
         [example_row ''2024-01-02T05:00:00.000Z''] JUndefined) = False
   \<and> fst (advance no_upstream (Some [''lastOffset'' \<mapsto> JNum 0]) (JNum 1000)
         [example_row ''2024-01-02T05:00:00.000Z''] JUndefined)
       = [''lastDateTime'' \<mapsto> JStr ''2024-01-02T05:00:00.000Z'']"
proof -
  have h: "to_number (string_to_number no_upstream) JUndefined = None" by simp
  show ?thesis
    using h missing_total_is_exhausted [OF h, of "Some [''lastOffset'' \<mapsto> JNum 0]" 1000
        "[example_row ''2024-01-02T05:00:00.000Z'']"]
    by (simp add: spread_def example_row_def)
qed

section \<open>Error replies\<close>

lemma catch_reply_type:
  "reply_json (catch_reply x) = ErrorBody m ty trace \<Longrightarrow>
   ty = (if err_name x \<noteq> [] then err_name x else ''RuntimeError'')"
  by (simp add: catch_reply_def error_type_of_def)

lemma catch_reply_shape:
  "\<exists>msg tr. catch_reply x
     = \<lparr>http_status = 500,
        reply_json = ErrorBody msg (if err_name x \<noteq> [] then err_name x else ''RuntimeError'') tr\<rparr>"
  by (simp add: catch_reply_def error_type_of_def)

lemma api_error_reply_Returns:
  assumes "api_error_reply r = Returns rep"
  shows "\<exists>msg t. text_body r = Returns t
     \<and> rep = \<lparr>http_status = 500, reply_json = ErrorBody msg ''PlausibleAPIError'' (Some [t])\<rparr>"
  using assms by (cases "text_body r") (auto simp: api_error_reply_def)

lemma api_error_reply_Throws:
  "(api_error_reply r = Throws x) = (text_body r = Throws x)"
  by (cases "text_body r") (auto simp: api_error_reply_def)

text \<open>A reply that lines 206--250 return is a success.\<close>

lemma finish_no_error:
  assumes "finish e st off raw tot = Returns rep"
  shows "reply_json rep \<noteq> ErrorBody m ty trace"
proof (cases "all_parsed raw")
  case (Some rows)
  then show ?thesis using assms by (auto simp: finish_def Let_def split_def)
next
  case None
  then show ?thesis using assms
    by (auto simp: finish_def split: if_splits option.splits)
qed

lemma sync_reply_no_error:
  assumes "sync_reply e st off d = Returns rep"
  shows "reply_json rep \<noteq> ErrorBody m ty trace"
proof (cases "read_page e d")
  case (Throws x)
  then show ?thesis using assms by (simp add: sync_reply_def)
next
  case (Returns pg)
  then have "finish e st off (fst pg) (snd pg) = Returns rep"
    using assms by (simp add: sync_reply_def split_def)
  then show ?thesis by (rule finish_no_error)
qed

text \<open>The \<^verbatim>\<open>TypeError\<close>s of lines 166--220: each carries that name.\<close>

lemma transform_Throws:
  "transform e i rs = Throws x \<Longrightarrow> err_name x = ''TypeError''"
  by (induction e i rs rule: transform.induct) (auto simp: type_error_def split: outcome.splits)

lemma sync_reply_Throws:
  assumes "sync_reply e st off d = Throws x"
  shows "err_name x = ''TypeError''"
proof (cases "read_page e d")
  case (Throws y)
  then have "y = x" using assms by (simp add: sync_reply_def)
  then show ?thesis using Throws transform_Throws [of e 0 _ x]
    by (auto simp: read_page_def Let_def type_error_def
        split: parsed_json.splits results_json.splits outcome.splits)
next
  case (Returns pg)
  then have "finish e st off (fst pg) (snd pg) = Throws x"
    using assms by (simp add: sync_reply_def split_def)
  then show ?thesis
    by (auto simp: finish_def Let_def split_def type_error_def split: option.splits if_splits)
qed

text \<open>What the inner \<^verbatim>\<open>try\<close> block of the connection test returns or throws.\<close>

lemma setup_test_try_Returns:
  assumes "setup_test_try e k sid st = Returns rep"
    and "reply_json rep = ErrorBody m ty trace"
  shows "ty = ''PlausibleAPIError''
     \<and> (\<exists>r t. fetch e (post k (probeQuery sid)) = Returns r \<and> \<not> ok r \<and> text_body r = Returns t)"
proof (cases "fetch e (post k (probeQuery sid))")
  case (Throws x)
  then show ?thesis using assms by (simp add: setup_test_try_def)
next
  case (Returns r)
  show ?thesis
  proof (cases "ok r")
    case True
    then show ?thesis using assms Returns by (auto simp: setup_test_try_def)
  next
    case False
    then have "api_error_reply r = Returns rep"
      using assms Returns by (simp add: setup_test_try_def)
    from api_error_reply_Returns [OF this] show ?thesis
      using assms(2) Returns False by auto
  qed
qed

text \<open>Every error reply of the handler, by where it comes from.\<close>

lemma error_reply_origin:
  assumes "reply_json (syncWithPlausible e req) = ErrorBody m ty trace"
  shows "ty = ''ConfigurationError''
           \<and> (\<not> truthy (opt_prop (req_secrets req) ''plausibleApiKey'')
                \<or> \<not> truthy (opt_prop (req_secrets req) ''siteId''))
        \<or> ty = ''PlausibleAPIError''
           \<and> (\<exists>r t. fetch e (sent_request e req) = Returns r \<and> \<not> ok r \<and> text_body r = Returns t)
        \<or> (\<exists>x. caught e req = Some x
               \<and> ty = (if err_name x \<noteq> [] then err_name x else ''RuntimeError''))"
proof (cases "try_block e req")
  case (Throws x)
  then have "caught e req = Some x" by (simp add: caught_def)
  moreover have "ty = (if err_name x \<noteq> [] then err_name x else ''RuntimeError'')"
    using assms Throws catch_reply_type [of x m ty trace] by (simp add: syncWithPlausible_def)
  ultimately show ?thesis by blast
next
  case (Returns rep)
  then have rep: "reply_json rep = ErrorBody m ty trace"
    using assms by (simp add: syncWithPlausible_def)
  show ?thesis
  proof (cases "\<not> truthy (opt_prop (req_secrets req) ''plausibleApiKey'')
      \<or> \<not> truthy (opt_prop (req_secrets req) ''siteId'')")
    case True
    then have "ty = ''ConfigurationError''"
      using Returns rep by (auto simp: try_block_def Let_def)
    then show ?thesis using True by blast
  next
    case secrets: False
    show ?thesis
    proof (cases "truthy (req_setup_test req)")
      case True
      let ?k = "opt_prop (req_secrets req) ''plausibleApiKey''"
      let ?sid = "opt_prop (req_secrets req) ''siteId''"
      have r: "rep = setup_test_reply e ?k ?sid (req_state req)"
        using Returns secrets True by (auto simp: try_block_def Let_def)
      have sent: "sent_request e req = post ?k (probeQuery ?sid)"
        using True by (simp add: sent_request_def Let_def)
      show ?thesis
      proof (cases "setup_test_try e ?k ?sid (req_state req)")
        case (Throws x)
        then have "caught e req = Some x"
          using Returns secrets True by (simp add: caught_def)
        moreover have "ty = (if err_name x \<noteq> [] then err_name x else ''RuntimeError'')"
          using rep r Throws catch_reply_type [of x m ty trace] by (simp add: setup_test_reply_def)
        ultimately show ?thesis by blast
      next
        case inner: (Returns rep')
        then have "rep' = rep" using r by (simp add: setup_test_reply_def)
        then show ?thesis
          using setup_test_try_Returns [OF inner, of m ty trace] rep sent by auto
      qed
    next
      case notest: False
      let ?rq = "post (opt_prop (req_secrets req) ''plausibleApiKey'')
                   (plausibleQuery e (opt_prop (req_secrets req) ''siteId'') (req_state req))"
      have sent: "sent_request e req = ?rq"
        using notest by (simp add: sent_request_def Let_def)
      show ?thesis
      proof (cases "fetch e ?rq")
        case (Throws x)
        then show ?thesis using Returns secrets notest by (auto simp: try_block_def Let_def)
      next
        case fetched: (Returns r)
        show ?thesis
        proof (cases "ok r")
          case False
          then have "api_error_reply r = Returns rep"
            using Returns secrets notest fetched by (auto simp: try_block_def Let_def)
          from api_error_reply_Returns [OF this] show ?thesis
            using rep sent fetched False by auto
        next
          case True
          show ?thesis
          proof (cases "json_body r")
            case (Throws x)
            then show ?thesis
              using Returns secrets notest fetched True by (auto simp: try_block_def Let_def)
          next
            case parsed: (Returns d)
            then have "sync_reply e (req_state req) (plan_offset e (req_state req)) d = Returns rep"
              using Returns secrets notest fetched True by (auto simp: try_block_def Let_def)
            from sync_reply_no_error [OF this, of m ty trace] show ?thesis using rep by simp
          qed
        qed
      qed
    qed
  qed
qed

text \<open>The exceptions that end in a \<^verbatim>\<open>catch\<close> block.\<close>

lemma caught_cases:
  assumes "truthy (opt_prop (req_secrets req) ''plausibleApiKey'')"
    and "truthy (opt_prop (req_secrets req) ''siteId'')"
    and "fetch e (sent_request e req) = Throws err
         \<or> fetch e (sent_request e req) = Returns resp \<and> \<not> ok resp \<and> text_body resp = Throws err
         \<or> fetch e (sent_request e req) = Returns resp \<and> ok resp \<and> \<not> truthy (req_setup_test req)
            \<and> (json_body resp = Throws err
                \<or> (\<exists>d. json_body resp = Returns d
                      \<and> sync_reply e (req_state req) (plan_offset e (req_state req)) d = Throws err))"
  shows "caught e req = Some err"
proof (cases "truthy (req_setup_test req)")
  case True
  then have "setup_test_try e (opt_prop (req_secrets req) ''plausibleApiKey'')
       (opt_prop (req_secrets req) ''siteId'') (req_state req) = Throws err"
    using assms
    by (auto simp: setup_test_try_def sent_request_def Let_def api_error_reply_Throws)
  then show ?thesis
    using assms(1,2) True by (simp add: caught_def try_block_def Let_def)
next
  case False
  then have "try_block e req = Throws err"
    using assms
    by (auto simp: try_block_def sent_request_def Let_def api_error_reply_Throws)
  then show ?thesis by (simp add: caught_def)
qed

lemma caught_reply:
  assumes "caught e req = Some err"
  shows "syncWithPlausible e req = catch_reply err"
proof (cases "try_block e req")
  case (Throws x)
  then show ?thesis using assms by (simp add: caught_def syncWithPlausible_def)
next
  case (Returns rep)
  then have c: "truthy (opt_prop (req_secrets req) ''plausibleApiKey'')
      \<and> truthy (opt_prop (req_secrets req) ''siteId'') \<and> truthy (req_setup_test req)"
    and t: "setup_test_try e (opt_prop (req_secrets req) ''plausibleApiKey'')
       (opt_prop (req_secrets req) ''siteId'') (req_state req) = Throws err"
    using assms by (auto simp: caught_def split: if_splits outcome.splits)
  then have "rep = catch_reply err"
    using Returns by (auto simp: try_block_def Let_def setup_test_reply_def)
  then show ?thesis using Returns by (simp add: syncWithPlausible_def)
qed

text \<open>
  C8, as stated, fails. When the upstream answers with status 503, the error type of
  the reply is \<open>''PlausibleAPIError''\<close>; when \<^verbatim>\<open>fetch\<close> throws a \<^verbatim>\<open>TypeError\<close>, as
  it does when the network fails, the error type is \<open>''TypeError''\<close>. Neither is one of
  the three types of the claim.
\<close>

theorem upstream_error_type_counterexample:
  "reply_json (syncWithPlausible
      (env_with (Returns \<lparr>ok = False, status = 503, text_body = Returns ''Service Unavailable'',
                           json_body = Throws (JsError ''SyntaxError'' ''Unexpected token'' None)\<rparr>))
      (sync_request None (JBool False)))
     = ErrorBody ''Plausible API request failed (status=503)'' ''PlausibleAPIError''
         (Some [''Service Unavailable''])
   \<and> ''PlausibleAPIError'' \<notin> {''ConfigurationError'', ''UpstreamAPIError'', ''RuntimeError''}
   \<and> reply_json (syncWithPlausible
      (env_with (Throws (JsError ''TypeError'' ''fetch failed'' None)))
      (sync_request None (JBool False)))
     = ErrorBody ''fetch failed'' ''TypeError'' (Some [])
   \<and> ''TypeError'' \<notin> {''ConfigurationError'', ''UpstreamAPIError'', ''RuntimeError''}"
  by (simp add: syncWithPlausible_def try_block_def sync_request_def env_with_def req_state_def
      req_secrets_def req_setup_test_def opt_prop_def get_prop_def api_error_reply_def
      catch_reply_def error_type_of_def int_to_str_def Let_def)

text \<open>
  C8, amended. The error type of an error reply is \<open>''ConfigurationError''\<close> when a
  required secret is missing (or falsy); \<open>''PlausibleAPIError''\<close> when the upstream
  answered with a status that is not a success (and its body text was read); and for any
  other unexpected failure, that is for the exception that ended in one of the two
  \<^verbatim>\<open>catch\<close> blocks, the name of that exception, or \<open>''RuntimeError''\<close> when the name is
  empty. Every error reply is one of these three. The exceptions that end in a
  \<^verbatim>\<open>catch\<close> block are those that \<^verbatim>\<open>fetch\<close>, \<^verbatim>\<open>text()\<close> and \<^verbatim>\<open>json()\<close> throw and
  the \<^verbatim>\<open>TypeError\<close>s of lines 166--220.
\<close>

theorem error_reply_types:
  "(\<not> truthy (opt_prop (req_secrets req) ''plausibleApiKey'')
      \<or> \<not> truthy (opt_prop (req_secrets req) ''siteId'') \<longrightarrow>
      (\<exists>msg. syncWithPlausible e req
         = \<lparr>http_status = 400, reply_json = ErrorBody msg ''ConfigurationError'' None\<rparr>))
   \<and> (truthy (opt_prop (req_secrets req) ''plausibleApiKey'')
      \<and> truthy (opt_prop (req_secrets req) ''siteId'')
      \<and> fetch e (sent_request e req) = Returns resp \<and> \<not> ok resp \<and> text_body resp = Returns tx \<longrightarrow>
      (\<exists>msg. syncWithPlausible e req
         = \<lparr>http_status = 500, reply_json = ErrorBody msg ''PlausibleAPIError'' (Some [tx])\<rparr>))
   \<and> (caught e req = Some err \<longrightarrow>
      (\<exists>msg tr. syncWithPlausible e req
         = \<lparr>http_status = 500,
            reply_json = ErrorBody msg
              (if err_name err \<noteq> [] then err_name err else ''RuntimeError'') tr\<rparr>))
   \<and> (reply_json (syncWithPlausible e req) = ErrorBody m ty trace \<longrightarrow>
        ty = ''ConfigurationError''
           \<and> (\<not> truthy (opt_prop (req_secrets req) ''plausibleApiKey'')
                \<or> \<not> truthy (opt_prop (req_secrets req) ''siteId''))
        \<or> ty = ''PlausibleAPIError''
           \<and> (\<exists>r t. fetch e (sent_request e req) = Returns r \<and> \<not> ok r \<and> text_body r = Returns t)
        \<or> (\<exists>x. caught e req = Some x
               \<and> ty = (if err_name x \<noteq> [] then err_name x else ''RuntimeError'')))
   \<and> (truthy (opt_prop (req_secrets req) ''plausibleApiKey'')
      \<and> truthy (opt_prop (req_secrets req) ''siteId'')
      \<and> (fetch e (sent_request e req) = Throws err
          \<or> fetch e (sent_request e req) = Returns resp \<and> \<not> ok resp \<and> text_body resp = Throws err
          \<or> fetch e (sent_request e req) = Returns resp \<and> ok resp \<and> \<not> truthy (req_setup_test req)
             \<and> (json_body resp = Throws err
                 \<or> (\<exists>d. json_body resp = Returns d
                       \<and> sync_reply e (req_state req) (plan_offset e (req_state req)) d = Throws err))) \<longrightarrow>
      caught e req = Some err)
   \<and> (sync_reply e st offset d = Throws x \<longrightarrow> err_name x = ''TypeError'')
   \<and> sync_reply e st offset BodyNull = Throws (type_error e ReadNullBody)"
proof (intro conjI impI)
  assume "\<not> truthy (opt_prop (req_secrets req) ''plausibleApiKey'')
      \<or> \<not> truthy (opt_prop (req_secrets req) ''siteId'')"
  then show "\<exists>msg. syncWithPlausible e req
         = \<lparr>http_status = 400, reply_json = ErrorBody msg ''ConfigurationError'' None\<rparr>"
    by (auto simp: syncWithPlausible_def try_block_def Let_def)
next
  assume a: "truthy (opt_prop (req_secrets req) ''plausibleApiKey'')
      \<and> truthy (opt_prop (req_secrets req) ''siteId'')
      \<and> fetch e (sent_request e req) = Returns resp \<and> \<not> ok resp \<and> text_body resp = Returns tx"
  then show "\<exists>msg. syncWithPlausible e req
         = \<lparr>http_status = 500, reply_json = ErrorBody msg ''PlausibleAPIError'' (Some [tx])\<rparr>"
    by (auto simp: syncWithPlausible_def try_block_def sent_request_def setup_test_reply_def
        setup_test_try_def api_error_reply_def Let_def)
next
  assume "caught e req = Some err"
  then show "\<exists>msg tr. syncWithPlausible e req
         = \<lparr>http_status = 500,
            reply_json = ErrorBody msg
              (if err_name err \<noteq> [] then err_name err else ''RuntimeError'') tr\<rparr>"
    using caught_reply [of e req err] catch_reply_shape [of err] by simp
next
  assume "reply_json (syncWithPlausible e req) = ErrorBody m ty trace"
  then show "ty = ''ConfigurationError''
           \<and> (\<not> truthy (opt_prop (req_secrets req) ''plausibleApiKey'')
                \<or> \<not> truthy (opt_prop (req_secrets req) ''siteId''))
        \<or> ty = ''PlausibleAPIError''
           \<and> (\<exists>r t. fetch e (sent_request e req) = Returns r \<and> \<not> ok r \<and> text_body r = Returns t)
        \<or> (\<exists>x. caught e req = Some x
               \<and> ty = (if err_name x \<noteq> [] then err_name x else ''RuntimeError''))"
    by (rule error_reply_origin)
next
  assume "truthy (opt_prop (req_secrets req) ''plausibleApiKey'')
      \<and> truthy (opt_prop (req_secrets req) ''siteId'')
      \<and> (fetch e (sent_request e req) = Throws err
          \<or> fetch e (sent_request e req) = Returns resp \<and> \<not> ok resp \<and> text_body resp = Throws err
          \<or> fetch e (sent_request e req) = Returns resp \<and> ok resp \<and> \<not> truthy (req_setup_test req)
             \<and> (json_body resp = Throws err
                 \<or> (\<exists>d. json_body resp = Returns d
                       \<and> sync_reply e (req_state req) (plan_offset e (req_state req)) d = Throws err)))"
  then show "caught e req = Some err"
    using caught_cases [of req e err resp] by blast
next
  assume "sync_reply e st offset d = Throws x"
  then show "err_name x = ''TypeError''"
    by (rule sync_reply_Throws)
next
  show "sync_reply e st offset BodyNull = Throws (type_error e ReadNullBody)"
    by (simp add: sync_reply_def read_page_def)
qed

theorem error_reply_types_witness:
  "\<not> truthy (opt_prop (req_secrets \<lparr>req_body = None\<rparr>) ''plausibleApiKey'')
   \<and> (\<exists>msg. syncWithPlausible no_upstream \<lparr>req_body = None\<rparr>
         = \<lparr>http_status = 400, reply_json = ErrorBody msg ''ConfigurationError'' None\<rparr>)
   \<and> truthy (opt_prop (req_secrets (sync_request None (JBool False))) ''plausibleApiKey'')
   \<and> truthy (opt_prop (req_secrets (sync_request None (JBool False))) ''siteId'')
   \<and> fetch (env_with (Returns \<lparr>ok = False, status = 503,
                 text_body = Returns ''Service Unavailable'', json_body = Returns BodyNull\<rparr>))
         (sent_request (env_with (Returns \<lparr>ok = False, status = 503,
                 text_body = Returns ''Service Unavailable'', json_body = Returns BodyNull\<rparr>))
            (sync_request None (JBool False)))
       = Returns \<lparr>ok = False, status = 503,
                 text_body = Returns ''Service Unavailable'', json_body = Returns BodyNull\<rparr>
   \<and> (\<exists>msg. syncWithPlausible (env_with (Returns \<lparr>ok = False, status = 503,
                 text_body = Returns ''Service Unavailable'', json_body = Returns BodyNull\<rparr>))
            (sync_request None (JBool False))
         = \<lparr>http_status = 500,
            reply_json = ErrorBody msg ''PlausibleAPIError'' (Some [''Service Unavailable''])\<rparr>)
   \<and> caught (env_with (Returns \<lparr>ok = True, status = 200,
                 text_body = Returns [], json_body = Returns BodyNull\<rparr>))
         (sync_request None (JBool False))
       = Some (JsError ''TypeError'' ''Cannot read properties'' None)
   \<and> reply_json (syncWithPlausible (env_with (Returns \<lparr>ok = True, status = 200,
                 text_body = Returns [], json_body = Returns BodyNull\<rparr>))
         (sync_request None (JBool False)))
       = ErrorBody ''Cannot read properties'' ''TypeError'' (Some [])"
proof -
  let ?req = "sync_request None (JBool False)"
  let ?r503 = "\<lparr>ok = False, status = 503, text_body = Returns ''Service Unavailable'',
                 json_body = Returns BodyNull\<rparr>"
  let ?rnull = "\<lparr>ok = True, status = 200, text_body = Returns [], json_body = Returns BodyNull\<rparr>"
  let ?err = "JsError ''TypeError'' ''Cannot read properties'' None"
  have c: "caught (env_with (Returns ?rnull)) ?req = Some ?err"
    by (simp add: caught_def try_block_def sync_request_def env_with_def req_state_def
        req_secrets_def req_setup_test_def opt_prop_def get_prop_def sync_reply_def
        read_page_def type_error_def Let_def)
  have r: "reply_json (syncWithPlausible (env_with (Returns ?rnull)) ?req)
       = ErrorBody ''Cannot read properties'' ''TypeError'' (Some [])"
    by (simp add: syncWithPlausible_def try_block_def sync_request_def env_with_def req_state_def
        req_secrets_def req_setup_test_def opt_prop_def get_prop_def sync_reply_def
        read_page_def type_error_def catch_reply_def error_type_of_def Let_def)
  show ?thesis
    using c r
      error_reply_types [where req = "\<lparr>req_body = None\<rparr>" and e = no_upstream]
      error_reply_types [where req = ?req and e = "env_with (Returns ?r503)"
        and resp = ?r503 and tx = "''Service Unavailable''"]
      error_reply_types [where req = ?req and e = "env_with (Returns ?rnull)" and err = ?err
        and m = "''Cannot read properties''" and ty = "''TypeError''" and trace = "Some []"]
    by (simp add: sync_request_def req_secrets_def opt_prop_def get_prop_def env_with_def)
qed

section \<open>The connection test\<close>

text \<open>
  C9. In a connection test (\<open>setup_test\<close> truthy) with both secrets present, when
  the upstream answers the fixed query with a success, the reply has status 200, the
  state of the request as it came (the empty object when the request had none), an
  empty \<open>insert\<close> and \<open>hasMore = False\<close>.
\<close>

theorem probe_echoes_state:
  assumes "truthy (opt_prop (req_secrets req) ''plausibleApiKey'')"
    and "truthy (opt_prop (req_secrets req) ''siteId'')"
    and "truthy (req_setup_test req)"
    and "fetch e (post (opt_prop (req_secrets req) ''plausibleApiKey'')
                   (probeQuery (opt_prop (req_secrets req) ''siteId''))) = Returns resp"
    and "ok resp"
  shows "syncWithPlausible e req
           = \<lparr>http_status = 200, reply_json = SuccessBody (or_empty (req_state req)) [] None False\<rparr>
     \<and> (req_state req = Some s \<longrightarrow> or_empty (req_state req) = s)
     \<and> (req_state req = None \<longrightarrow> or_empty (req_state req) = Map.empty)"
  using assms
  by (auto simp: syncWithPlausible_def try_block_def setup_test_reply_def setup_test_try_def
      or_empty_def Let_def)

theorem probe_echoes_state_witness:
  "truthy (JStr ''key'') \<and> truthy (JStr ''example.com'') \<and> truthy (JBool True)
   \<and> syncWithPlausible (env_with (ok_response (page [] (JNum 0))))
       (sync_request (Some [''lastDateTime'' \<mapsto> JStr ''2024-01-01T00:00:00.000Z'',
                            ''lastOffset'' \<mapsto> JNum 1000]) (JBool True))
     = \<lparr>http_status = 200,
        reply_json = SuccessBody [''lastDateTime'' \<mapsto> JStr ''2024-01-01T00:00:00.000Z'',
                                  ''lastOffset'' \<mapsto> JNum 1000] [] None False\<rparr>"
proof -
  let ?req = "sync_request (Some [''lastDateTime'' \<mapsto> JStr ''2024-01-01T00:00:00.000Z'',
                                  ''lastOffset'' \<mapsto> JNum 1000]) (JBool True)"
  let ?e = "env_with (ok_response (page [] (JNum 0)))"
  let ?resp = "\<lparr>ok = True, status = 200, text_body = Returns [],
                 json_body = Returns (shaped (page [] (JNum 0)))\<rparr>"
  have k: "truthy (opt_prop (req_secrets ?req) ''plausibleApiKey'')"
    by (simp add: sync_request_def req_secrets_def opt_prop_def get_prop_def)
  have s: "truthy (opt_prop (req_secrets ?req) ''siteId'')"
    by (simp add: sync_request_def req_secrets_def opt_prop_def get_prop_def)
  have t: "truthy (req_setup_test ?req)"
    by (simp add: sync_request_def req_setup_test_def)
  have f: "fetch ?e (post (opt_prop (req_secrets ?req) ''plausibleApiKey'')
                      (probeQuery (opt_prop (req_secrets ?req) ''siteId''))) = Returns ?resp"
    by (simp add: env_with_def ok_response_def)
  have o: "ok ?resp" by simp
  show ?thesis
    using probe_echoes_state [OF k s t f o]
    by (simp add: sync_request_def req_state_def or_empty_def)
qed

end
